theory Spec2Isabelle
  imports Complex_Main "HOL-Library.Log_Nat"
begin

section \<open>Python values used by image_converter.py\<close>

text \<open>
  A Python \<open>str\<close> is modelled as a \<open>string\<close>: a list of characters, each one code point
  below 256. Exceptions are values: the class name and the text that \<open>str(e)\<close> gives.
  Every exception of this model is an instance of Python's \<open>Exception\<close>.
\<close>

datatype exn = PyExc string string

fun exn_str :: "exn \<Rightarrow> string" where
  "exn_str (PyExc cls msg) = msg"

definition KeyError :: "string \<Rightarrow> exn" where
  \<comment> \<open>\<open>str(KeyError(k))\<close> is the \<open>repr\<close> of the key: the key between single quotes.\<close>
  "KeyError k = PyExc ''KeyError'' ([CHR 39] @ k @ [CHR 39])"

definition ZeroDivisionError :: exn where
  "ZeroDivisionError = PyExc ''ZeroDivisionError'' ''float division by zero''"

definition OverflowError :: "string \<Rightarrow> exn" where
  "OverflowError msg = PyExc ''OverflowError'' msg"

definition ValueError :: "string \<Rightarrow> exn" where
  "ValueError msg = PyExc ''ValueError'' msg"

subsection \<open>Truth values of optional arguments\<close>

text \<open>
  \<open>if width\<close> on an \<open>Optional[int]\<close>: \<open>None\<close> and \<open>0\<close> are false. \<open>if specified_type\<close>
  on an \<open>Optional[str]\<close>: \<open>None\<close> and the empty string are false.
\<close>

fun truthy_int :: "int option \<Rightarrow> bool" where
  "truthy_int None = False"
| "truthy_int (Some n) = (n \<noteq> 0)"

fun truthy_str :: "string option \<Rightarrow> bool" where
  "truthy_str None = False"
| "truthy_str (Some s) = (s \<noteq> [])"

subsection \<open>String methods\<close>

definition lower_char :: "char \<Rightarrow> char" where
  \<comment> \<open>\<open>str.lower\<close> on one code point below 256: A-Z, and the Latin-1 capitals
      U+00C0 to U+00DE without the multiplication sign U+00D7.\<close>
  "lower_char c =
     (let n = (of_char c :: nat)
      in if (65 \<le> n \<and> n \<le> 90) \<or> (192 \<le> n \<and> n \<le> 222 \<and> n \<noteq> 215)
         then char_of (n + 32) else c)"

definition lower :: "string \<Rightarrow> string" where
  "lower s = map lower_char s"

definition endswith :: "string \<Rightarrow> string \<Rightarrow> bool" where
  "endswith s suf = (length suf \<le> length s \<and> drop (length s - length suf) s = suf)"

definition startswith :: "string \<Rightarrow> string \<Rightarrow> bool" where
  "startswith s pre = (take (length pre) s = pre)"

definition endswith_any :: "string \<Rightarrow> string list \<Rightarrow> bool" where
  \<comment> \<open>\<open>s.endswith(t)\<close> with a tuple \<open>t\<close> of suffixes.\<close>
  "endswith_any s sufs = list_ex (endswith s) sufs"

definition remove_char :: "char \<Rightarrow> string \<Rightarrow> string" where
  \<comment> \<open>\<open>s.replace(c, '')\<close> for a one-character \<open>c\<close>.\<close>
  "remove_char c s = filter (\<lambda>d. d \<noteq> c) s"

fun rfind_from :: "char \<Rightarrow> string \<Rightarrow> int \<Rightarrow> int \<Rightarrow> int" where
  \<comment> \<open>Scans left to right from index \<open>i\<close>, keeping the last hit \<open>found\<close>.\<close>
  "rfind_from c [] i found = found"
| "rfind_from c (d # s) i found = rfind_from c s (i + 1) (if d = c then i else found)"

definition rfind :: "char \<Rightarrow> string \<Rightarrow> int" where
  \<comment> \<open>\<open>s.rfind(c)\<close>: the highest index of \<open>c\<close>, or -1.\<close>
  "rfind c s = rfind_from c s 0 (-1)"

fun split_acc :: "char \<Rightarrow> string \<Rightarrow> string \<Rightarrow> string list" where
  "split_acc c [] cur = [rev cur]"
| "split_acc c (d # s) cur =
     (if d = c then rev cur # split_acc c s [] else split_acc c s (d # cur))"

definition split :: "char \<Rightarrow> string \<Rightarrow> string list" where
  \<comment> \<open>\<open>s.split(c)\<close>: the empty string gives one empty field.\<close>
  "split c s = split_acc c s []"

fun sep_join :: "string \<Rightarrow> string list \<Rightarrow> string" where
  \<comment> \<open>\<open>sep.join(parts)\<close>\<close>
  "sep_join sep [] = []"
| "sep_join sep [x] = x"
| "sep_join sep (x # y # ys) = x @ sep @ sep_join sep (y # ys)"

definition rstrip :: "char \<Rightarrow> string \<Rightarrow> string" where
  "rstrip c s = rev (dropWhile (\<lambda>d. d = c) (rev s))"

definition lstrip :: "char \<Rightarrow> string \<Rightarrow> string" where
  "lstrip c s = dropWhile (\<lambda>d. d = c) s"

section \<open>os.path on POSIX\<close>

text \<open>
  The functions of \<open>posixpath\<close> that the converter calls, following the standard library's
  code: the separator is \<open>/\<close>, there is no alternative separator, the extension separator
  is the dot.
\<close>

definition splitext :: "string \<Rightarrow> string \<times> string" where
  \<comment> \<open>The extension starts at the last dot of the last component, unless only dots come
      before it in that component.\<close>
  "splitext p =
     (let sepIndex = rfind (CHR ''/'') p;
          dotIndex = rfind (CHR ''.'') p
      in if dotIndex > sepIndex
            \<and> list_ex (\<lambda>d. d \<noteq> CHR ''.'')
                 (take (nat (dotIndex - (sepIndex + 1))) (drop (nat (sepIndex + 1)) p))
         then (take (nat dotIndex) p, drop (nat dotIndex) p)
         else (p, []))"

definition basename :: "string \<Rightarrow> string" where
  "basename p = drop (nat (rfind (CHR ''/'') p + 1)) p"

definition dirname :: "string \<Rightarrow> string" where
  "dirname p =
     (let head = take (nat (rfind (CHR ''/'') p + 1)) p
      in if head \<noteq> [] \<and> head \<noteq> replicate (length head) (CHR ''/'')
         then rstrip (CHR ''/'') head else head)"

definition join2 :: "string \<Rightarrow> string \<Rightarrow> string" where
  \<comment> \<open>One step of \<open>os.path.join\<close>.\<close>
  "join2 path b =
     (if startswith b ''/'' then b
      else if path = [] \<or> endswith path ''/'' then path @ b
      else path @ ''/'' @ b)"

definition join :: "string \<Rightarrow> string list \<Rightarrow> string" where
  \<comment> \<open>\<open>os.path.join(a, *p)\<close>\<close>
  "join a p = foldl join2 a p"

fun normpath_comps :: "bool \<Rightarrow> string list \<Rightarrow> string list \<Rightarrow> string list" where
  \<comment> \<open>The loop of \<open>normpath\<close> over the components; \<open>new_comps\<close> is kept reversed.\<close>
  "normpath_comps initial_slashes [] new_comps = rev new_comps"
| "normpath_comps initial_slashes (part # comps) new_comps =
     (if part = [] \<or> part = ''.'' then normpath_comps initial_slashes comps new_comps
      else if part \<noteq> ''..'' \<or> (\<not> initial_slashes \<and> new_comps = [])
              \<or> (new_comps \<noteq> [] \<and> hd new_comps = ''..'')
      then normpath_comps initial_slashes comps (part # new_comps)
      else if new_comps \<noteq> [] then normpath_comps initial_slashes comps (tl new_comps)
      else normpath_comps initial_slashes comps new_comps)"

definition normpath :: "string \<Rightarrow> string" where
  "normpath path =
     (if path = [] then ''.''
      else
        let initial_slashes =
              (if startswith path ''/''
               then (if startswith path ''//'' \<and> \<not> startswith path ''///'' then 2 else 1)
               else (0::nat));
            comps = normpath_comps (initial_slashes \<noteq> 0) (split (CHR ''/'') path) [];
            res = replicate initial_slashes (CHR ''/'') @ sep_join ''/'' comps
        in if res = [] then ''.'' else res)"

definition abspath :: "string \<Rightarrow> string \<Rightarrow> string" where
  \<comment> \<open>\<open>os.path.abspath(path)\<close>; \<open>cwd\<close> is what \<open>os.getcwd()\<close> returns.\<close>
  "abspath cwd path =
     normpath (if startswith path ''/'' then path else join cwd [path])"

fun commonprefix_len :: "string list \<Rightarrow> string list \<Rightarrow> nat" where
  \<comment> \<open>\<open>len(commonprefix([a, b]))\<close> on two lists of components.\<close>
  "commonprefix_len (x # xs) (y # ys) = (if x = y then Suc (commonprefix_len xs ys) else 0)"
| "commonprefix_len _ _ = 0"

definition path_list :: "string \<Rightarrow> string list" where
  "path_list p = (let tail = lstrip (CHR ''/'') p in if tail = [] then [] else split (CHR ''/'') tail)"

definition relpath :: "string \<Rightarrow> string \<Rightarrow> string \<Rightarrow> exn + string" where
  \<comment> \<open>\<open>os.path.relpath(path, start)\<close>\<close>
  "relpath cwd path start =
     (if path = [] then Inl (ValueError ''no path specified'')
      else
        let start_list = path_list (abspath cwd start);
            pth_list = path_list (abspath cwd path);
            i = commonprefix_len start_list pth_list;
            rel_list = replicate (length start_list - i) ''..'' @ drop i pth_list
        in if rel_list = [] then Inr ''.'' else Inr (sep_join ''/'' rel_list))"

section \<open>The table of supported formats\<close>

text \<open>
  \<open>SUPPORTED_FORMATS\<close> is a dict literal; a dict keeps its insertion order, which
  \<open>process_directory\<close> relies on, so the table is an association list in that order.
\<close>

definition SUPPORTED_FORMATS :: "(string \<times> string) list" where
  "SUPPORTED_FORMATS =
     [(''jpg'', ''JPEG''),
      (''jpeg'', ''JPEG''),
      (''png'', ''PNG''),
      (''webp'', ''WEBP''),
      (''bmp'', ''BMP''),
      (''tiff'', ''TIFF''),
      (''gif'', ''GIF'')]"

definition dict_getitem :: "(string \<times> string) list \<Rightarrow> string \<Rightarrow> exn + string" where
  \<comment> \<open>\<open>d[k]\<close>: a missing key raises \<open>KeyError\<close>.\<close>
  "dict_getitem d k = (case map_of d k of None \<Rightarrow> Inl (KeyError k) | Some v \<Rightarrow> Inr v)"

definition dict_contains :: "(string \<times> string) list \<Rightarrow> string \<Rightarrow> bool" where
  \<comment> \<open>\<open>k in d\<close>\<close>
  "dict_contains d k = (map_of d k \<noteq> None)"

section \<open>get_output_format\<close>

definition get_output_format :: "string \<Rightarrow> string option \<Rightarrow> exn + string" where
  "get_output_format output_path specified_type =
     (if truthy_str specified_type
      then dict_getitem SUPPORTED_FORMATS (lower (the specified_type))
      else
        let ext = remove_char (CHR ''.'') (lower (snd (splitext output_path)))
        in if dict_contains SUPPORTED_FORMATS ext
           then dict_getitem SUPPORTED_FORMATS ext
           else Inr ''JPEG'')"

section \<open>Floating-point arithmetic\<close>

text \<open>
  A Python \<open>float\<close> is an IEEE 754 binary64 number: a finite value is a rational, and
  every operation rounds its exact result to the nearest representable number, ties to
  the even significand. The sign of a zero is not kept: no operation of the converter
  can observe it.
\<close>

datatype pyfloat = Fin rat | Inf bool | NaN

definition floor_log2 :: "rat \<Rightarrow> int" where
  \<comment> \<open>For \<open>x > 0\<close>, the \<open>e\<close> with \<open>2 ^ e \<le> x < 2 ^ (e + 1)\<close>.\<close>
  "floor_log2 x =
     (let (p, q) = quotient_of x; d = bitlen p - bitlen q
      in if 2 powi d \<le> x then d else d - 1)"

definition round_half_even :: "rat \<Rightarrow> int" where
  "round_half_even x =
     (let f = \<lfloor>x\<rfloor>; r = x - of_int f
      in if r < 1 / 2 then f
         else if r > 1 / 2 then f + 1
         else if even f then f else f + 1)"

definition fl :: "rat \<Rightarrow> pyfloat" where
  \<comment> \<open>Rounding to binary64: 53 significant bits, least exponent -1022 (below it the
      spacing stays \<open>2 ^ -1074\<close>), overflow to infinity when the rounded value
      reaches \<open>2 ^ 1024\<close>.\<close>
  "fl x =
     (if x = 0 then Fin 0
      else
        let e = max (floor_log2 \<bar>x\<bar>) (- 1022) - 52;
            y = of_int (round_half_even (x / 2 powi e)) * 2 powi e
        in if y \<noteq> 0 \<and> 1024 \<le> floor_log2 \<bar>y\<bar> then Inf (x < 0) else Fin y)"

definition float_of_int :: "int \<Rightarrow> exn + pyfloat" where
  \<comment> \<open>\<open>float(n)\<close>, and the conversion of an \<open>int\<close> operand of a float operation.\<close>
  "float_of_int n =
     (case fl (of_int n) of
        Fin x \<Rightarrow> Inr (Fin x)
      | _ \<Rightarrow> Inl (OverflowError ''int too large to convert to float''))"

fun float_truediv :: "pyfloat \<Rightarrow> pyfloat \<Rightarrow> exn + pyfloat" where
  "float_truediv a (Fin y) =
     (if y = 0 then Inl ZeroDivisionError
      else case a of Fin x \<Rightarrow> Inr (fl (x / y))
                   | Inf s \<Rightarrow> Inr (Inf (s \<noteq> (y < 0)))
                   | NaN \<Rightarrow> Inr NaN)"
| "float_truediv (Fin x) (Inf t) = Inr (Fin 0)"
| "float_truediv a b = Inr NaN"

fun float_mul :: "pyfloat \<Rightarrow> pyfloat \<Rightarrow> pyfloat" where
  "float_mul (Fin x) (Fin y) = fl (x * y)"
| "float_mul (Inf s) (Fin y) = (if y = 0 then NaN else Inf (s \<noteq> (y < 0)))"
| "float_mul (Fin x) (Inf t) = (if x = 0 then NaN else Inf (t \<noteq> (x < 0)))"
| "float_mul (Inf s) (Inf t) = Inf (s \<noteq> t)"
| "float_mul a b = NaN"

fun int_of_float :: "pyfloat \<Rightarrow> exn + int" where
  \<comment> \<open>\<open>int(x)\<close> truncates toward zero.\<close>
  "int_of_float (Fin x) = Inr (if x \<ge> 0 then \<lfloor>x\<rfloor> else \<lceil>x\<rceil>)"
| "int_of_float (Inf s) = Inl (OverflowError ''cannot convert float infinity to integer'')"
| "int_of_float NaN = Inl (ValueError ''cannot convert float NaN to integer'')"

definition scale_dimension :: "int \<Rightarrow> int \<Rightarrow> int \<Rightarrow> exn + int" where
  \<comment> \<open>\<open>int(float(other) * float(given / float(orig)))\<close>: lines 142-143 with
      \<open>given = width\<close>, \<open>orig = img.size[0]\<close>, \<open>other = img.size[1]\<close>, and lines 145-146
      with the axes exchanged.\<close>
  "scale_dimension given orig other =
     (case float_of_int orig of
        Inl e \<Rightarrow> Inl e
      | Inr forig \<Rightarrow>
          (case float_of_int given of
             Inl e \<Rightarrow> Inl e
           | Inr fgiven \<Rightarrow>
               (case float_truediv fgiven forig of
                  Inl e \<Rightarrow> Inl e
                | Inr percent \<Rightarrow>
                    (case float_of_int other of
                       Inl e \<Rightarrow> Inl e
                     | Inr fother \<Rightarrow> int_of_float (float_mul fother percent)))))"

section \<open>The image library, the file system and the console\<close>

text \<open>
  Pillow, \<open>os\<close> and the console are outside the repository. An image is what the
  converter reads of it: its mode and its size. Every call into the libraries is
  recorded, in order, in \<open>calls\<close>; whether a call raises, and what \<open>Image.open\<close> decodes,
  is decided by the two oracles \<open>fault\<close> and \<open>decoded\<close> from the calls made so far, so a
  file written by one conversion may change what a later one reads. The strings passed to
  \<open>print\<close> are collected in \<open>stdout\<close>.
\<close>

record image =
  mode :: string
  size' :: "int \<times> int"

datatype pyval = PyInt int | PyBool bool

datatype call =
    OpenCall string
  | ConvertCall image string
  | ResizeCall image "int \<times> int"
  | MakedirsCall string
  | SaveCall image string string "(string \<times> pyval) list"

datatype fsnode = File | Dir "(string \<times> fsnode) list"

record world =
  cwd :: string
  lookup_path :: "string \<Rightarrow> fsnode option"
  decoded :: "call list \<Rightarrow> string \<Rightarrow> image"
  fault :: "call list \<Rightarrow> call \<Rightarrow> exn option"
  calls :: "call list"
  stdout :: "string list"

definition lib_call :: "call \<Rightarrow> world \<Rightarrow> exn option \<times> world" where
  "lib_call c w = (fault w (calls w) c, w\<lparr>calls := calls w @ [c]\<rparr>)"

definition Image_open :: "string \<Rightarrow> world \<Rightarrow> (exn + image) \<times> world" where
  "Image_open path w =
     (case lib_call (OpenCall path) w of
        (Some e, w') \<Rightarrow> (Inl e, w')
      | (None, w') \<Rightarrow> (Inr (decoded w (calls w) path), w'))"

definition convert :: "image \<Rightarrow> string \<Rightarrow> world \<Rightarrow> (exn + image) \<times> world" where
  \<comment> \<open>\<open>img.convert(m)\<close>: a new image of mode \<open>m\<close> and the same size.\<close>
  "convert img m w =
     (case lib_call (ConvertCall img m) w of
        (Some e, w') \<Rightarrow> (Inl e, w')
      | (None, w') \<Rightarrow> (Inr (img\<lparr>mode := m\<rparr>), w'))"

definition resize :: "image \<Rightarrow> int \<times> int \<Rightarrow> world \<Rightarrow> (exn + image) \<times> world" where
  \<comment> \<open>\<open>img.resize(sz, Image.LANCZOS)\<close>: a new image of size \<open>sz\<close> and the same mode.\<close>
  "resize img sz w =
     (case lib_call (ResizeCall img sz) w of
        (Some e, w') \<Rightarrow> (Inl e, w')
      | (None, w') \<Rightarrow> (Inr (img\<lparr>size' := sz\<rparr>), w'))"

definition makedirs :: "string \<Rightarrow> world \<Rightarrow> (exn + unit) \<times> world" where
  \<comment> \<open>\<open>os.makedirs(path, exist_ok=True)\<close>\<close>
  "makedirs path w =
     (case lib_call (MakedirsCall path) w of
        (Some e, w') \<Rightarrow> (Inl e, w')
      | (None, w') \<Rightarrow> (Inr (), w'))"

definition JPEG_RAWMODE :: "string list" where
  \<comment> \<open>The modes Pillow's JPEG encoder writes.\<close>
  "JPEG_RAWMODE = [''1'', ''L'', ''RGB'', ''RGBX'', ''CMYK'', ''YCbCr'']"

definition save ::
  "image \<Rightarrow> string \<Rightarrow> string \<Rightarrow> (string \<times> pyval) list \<Rightarrow> world \<Rightarrow> (exn + unit) \<times> world" where
  \<comment> \<open>\<open>img.save(path, format=fmt, **kwargs)\<close>: the JPEG encoder refuses every mode
      outside its table; any other failure is the oracle's.\<close>
  "save img path fmt kwargs w =
     (case lib_call (SaveCall img path fmt kwargs) w of
        (flt, w') \<Rightarrow>
          if fmt = ''JPEG'' \<and> mode img \<notin> set JPEG_RAWMODE
          then (Inl (PyExc ''OSError'' (''cannot write mode '' @ mode img @ '' as JPEG'')), w')
          else (case flt of Some e \<Rightarrow> (Inl e, w') | None \<Rightarrow> (Inr (), w')))"

definition print :: "string \<Rightarrow> world \<Rightarrow> world" where
  "print s w = w\<lparr>stdout := stdout w @ [s]\<rparr>"

text \<open>The colour codes of \<open>colorama.Fore\<close>.\<close>

definition Fore_RED :: string where "Fore_RED = CHR 0x1B # ''[31m''"
definition Fore_GREEN :: string where "Fore_GREEN = CHR 0x1B # ''[32m''"
definition Fore_YELLOW :: string where "Fore_YELLOW = CHR 0x1B # ''[33m''"
definition Fore_CYAN :: string where "Fore_CYAN = CHR 0x1B # ''[36m''"
definition Fore_WHITE :: string where "Fore_WHITE = CHR 0x1B # ''[37m''"

fun str_nat :: "nat \<Rightarrow> string" where
  "str_nat n =
     (if n < 10 then [''0123456789'' ! n]
      else str_nat (n div 10) @ [''0123456789'' ! (n mod 10)])"

declare str_nat.simps [simp del]

definition str_int :: "int \<Rightarrow> string" where
  \<comment> \<open>\<open>str(n)\<close>\<close>
  "str_int n = (if n < 0 then CHR ''-'' # str_nat (nat (- n)) else str_nat (nat n))"

section \<open>process_image\<close>

definition target_size ::
  "image \<Rightarrow> int option \<Rightarrow> int option \<Rightarrow> exn + (int \<times> int) option" where
  \<comment> \<open>Lines 139-147: \<open>None\<close> when no resize is asked for, otherwise the pair passed to
      \<open>img.resize\<close>.\<close>
  "target_size img width height =
     (if truthy_int width \<or> truthy_int height then
        if truthy_int width \<and> \<not> truthy_int height then
          (case scale_dimension (the width) (fst (size' img)) (snd (size' img)) of
             Inl e \<Rightarrow> Inl e
           | Inr h \<Rightarrow> Inr (Some (the width, h)))
        else if truthy_int height \<and> \<not> truthy_int width then
          (case scale_dimension (the height) (snd (size' img)) (fst (size' img)) of
             Inl e \<Rightarrow> Inl e
           | Inr w \<Rightarrow> Inr (Some (w, the height)))
        else Inr (Some (the width, the height))
      else Inr None)"

definition save_kwargs :: "string \<Rightarrow> int \<Rightarrow> (string \<times> pyval) list" where
  \<comment> \<open>Lines 154-158.\<close>
  "save_kwargs output_format quality =
     (if output_format \<in> set [''JPEG'', ''WEBP''] then [(''quality'', PyInt quality)] else [])
     @ (if output_format = ''PNG'' then [(''optimize'', PyBool True)] else [])"

definition and_then ::
  "(world \<Rightarrow> (exn + 'a) \<times> world) \<Rightarrow> ('a \<Rightarrow> world \<Rightarrow> (exn + 'b) \<times> world)
     \<Rightarrow> world \<Rightarrow> (exn + 'b) \<times> world" where
  \<comment> \<open>One statement after another: an exception of the first skips the second.\<close>
  "and_then m f w = (case m w of (Inl e, w') \<Rightarrow> (Inl e, w') | (Inr x, w') \<Rightarrow> f x w')"

definition convert_mode :: "bool \<Rightarrow> string \<Rightarrow> image \<Rightarrow> world \<Rightarrow> (exn + image) \<times> world" where
  \<comment> \<open>Lines 132-136.\<close>
  "convert_mode grayscale output_format img w =
     (if grayscale then convert img ''L'' w
      else if mode img = ''RGBA'' \<and> output_format = ''JPEG'' then convert img ''RGB'' w
      else (Inr img, w))"

definition resize_if_needed ::
  "int option \<Rightarrow> int option \<Rightarrow> image \<Rightarrow> world \<Rightarrow> (exn + image) \<times> world" where
  \<comment> \<open>Lines 139-148.\<close>
  "resize_if_needed width height img w =
     (case target_size img width height of
        Inl e \<Rightarrow> (Inl e, w)
      | Inr None \<Rightarrow> (Inr img, w)
      | Inr (Some sz) \<Rightarrow> resize img sz w)"

definition save_image ::
  "string \<Rightarrow> string \<Rightarrow> int \<Rightarrow> image \<Rightarrow> world \<Rightarrow> (exn + bool) \<times> world" where
  \<comment> \<open>Lines 151-161.\<close>
  "save_image output_path output_format quality img w =
     and_then (makedirs (dirname (abspath (cwd w) output_path)))
       (\<lambda>u. and_then (save img output_path output_format (save_kwargs output_format quality))
          (\<lambda>u' w'. (Inr True, w'))) w"

definition process_image_try ::
  "string \<Rightarrow> string \<Rightarrow> string \<Rightarrow> int \<Rightarrow> int option \<Rightarrow> int option \<Rightarrow> bool \<Rightarrow> world
     \<Rightarrow> (exn + bool) \<times> world" where
  \<comment> \<open>The body of the \<open>try\<close>, lines 128-161: \<open>Inl e\<close> when it raises \<open>e\<close>.\<close>
  "process_image_try input_path output_path output_format quality width height grayscale =
     and_then (Image_open input_path)
       (\<lambda>img. and_then (convert_mode grayscale output_format img)
          (\<lambda>img. and_then (resize_if_needed width height img)
             (save_image output_path output_format quality)))"

definition process_image ::
  "string \<Rightarrow> string \<Rightarrow> string \<Rightarrow> int \<Rightarrow> int option \<Rightarrow> int option \<Rightarrow> bool \<Rightarrow> world
     \<Rightarrow> bool \<times> world" where
  \<comment> \<open>The \<open>try\<close> with its handler \<open>except Exception as e\<close>, lines 163-165.\<close>
  "process_image input_path output_path output_format quality width height grayscale w =
     (case process_image_try input_path output_path output_format quality width height
             grayscale w of
        (Inr r, w') \<Rightarrow> (r, w')
      | (Inl e, w') \<Rightarrow>
          (False,
           print (Fore_RED @ ''Error processing image ('' @ input_path @ ''): '' @ exn_str e) w'))"

section \<open>find_image_files\<close>

text \<open>
  A directory is the list of its entries in the order the file system gives them; an
  entry is a name with what it names. \<open>lookup_path\<close> resolves the path of a root.
  \<open>os.listdir\<close> returns the names of all entries, whatever they name. \<open>os.walk\<close> visits
  a directory before its subdirectories and reports, for each directory, the names of its
  subdirectories and of its other entries; a root that cannot be listed is skipped.
\<close>

definition listdir :: "string \<Rightarrow> world \<Rightarrow> exn + string list" where
  "listdir directory w =
     (case lookup_path w directory of
        None \<Rightarrow>
          Inl (PyExc ''FileNotFoundError''
                 (''[Errno 2] No such file or directory: '' @ [CHR 39] @ directory @ [CHR 39]))
      | Some File \<Rightarrow>
          Inl (PyExc ''NotADirectoryError''
                 (''[Errno 20] Not a directory: '' @ [CHR 39] @ directory @ [CHR 39]))
      | Some (Dir entries) \<Rightarrow> Inr (map fst entries))"

fun is_dir :: "fsnode \<Rightarrow> bool" where
  "is_dir File = False"
| "is_dir (Dir entries) = True"

fun walk_node :: "string \<Rightarrow> fsnode \<Rightarrow> (string \<times> string list \<times> string list) list"
and walk_entries :: "string \<Rightarrow> (string \<times> fsnode) list \<Rightarrow> (string \<times> string list \<times> string list) list"
where
  "walk_node root' File = []"
| "walk_node root' (Dir entries) =
     (root', map fst (filter (\<lambda>e. is_dir (snd e)) entries),
           map fst (filter (\<lambda>e. \<not> is_dir (snd e)) entries))
     # walk_entries root' entries"
| "walk_entries root' [] = []"
| "walk_entries root' (e # rest) = walk_node (join root' [fst e]) (snd e) @ walk_entries root' rest"

definition walk :: "string \<Rightarrow> world \<Rightarrow> (string \<times> string list \<times> string list) list" where
  \<comment> \<open>\<open>os.walk(directory)\<close>\<close>
  "walk directory w =
     (case lookup_path w directory of None \<Rightarrow> [] | Some node \<Rightarrow> walk_node directory node)"

definition valid_extensions :: "string list" where
  "valid_extensions = map (\<lambda>kv. ''.'' @ fst kv) SUPPORTED_FORMATS"

definition matching :: "string list \<Rightarrow> string list" where
  \<comment> \<open>The names that pass \<open>file.lower().endswith(valid_extensions)\<close>.\<close>
  "matching names = filter (\<lambda>file. endswith_any (lower file) valid_extensions) names"

definition find_image_files :: "string \<Rightarrow> bool \<Rightarrow> world \<Rightarrow> exn + string list" where
  "find_image_files directory recursive w =
     (if recursive
      then Inr (concat (map (\<lambda>(root', dirs, files). map (\<lambda>file. join root' [file]) (matching files))
                          (walk directory w)))
      else (case listdir directory w of
              Inl e \<Rightarrow> Inl e
            | Inr names \<Rightarrow> Inr (map (\<lambda>file. join directory [file]) (matching names))))"

section \<open>process_directory\<close>

definition format_extension :: "string \<Rightarrow> string" where
  \<comment> \<open>Line 230: the first key of the table whose value is the format, else \<open>jpg\<close>.\<close>
  "format_extension output_format =
     (case filter (\<lambda>kv. snd kv = output_format) SUPPORTED_FORMATS of
        [] \<Rightarrow> ''jpg''
      | kv # rest \<Rightarrow> fst kv)"

definition destination ::
  "bool \<Rightarrow> string \<Rightarrow> string \<Rightarrow> string \<Rightarrow> string \<Rightarrow> world \<Rightarrow> (exn + string) \<times> world" where
  \<comment> \<open>Lines 238-251: the output path of one input file; in recursive mode the
      subdirectory is created first.\<close>
  "destination recursive input_dir output_dir ext input_path w =
     (if recursive then
        (case relpath (cwd w) input_path input_dir of
           Inl e \<Rightarrow> (Inl e, w)
         | Inr rel_path \<Rightarrow>
             let rel_dir = dirname rel_path;
                 filename = fst (splitext (basename input_path))
             in if rel_dir \<noteq> [] then
                  (case makedirs (join output_dir [rel_dir]) w of
                     (Inl e, w') \<Rightarrow> (Inl e, w')
                   | (Inr u, w') \<Rightarrow>
                       (Inr (join output_dir [rel_dir, filename @ ''.'' @ ext]), w'))
                else (Inr (join output_dir [filename @ ''.'' @ ext]), w))
      else
        let filename = fst (splitext (basename input_path))
        in (Inr (join output_dir [filename @ ''.'' @ ext]), w))"

fun process_files ::
  "string \<Rightarrow> string \<Rightarrow> string \<Rightarrow> string \<Rightarrow> int \<Rightarrow> int option \<Rightarrow> int option \<Rightarrow> bool \<Rightarrow> bool
     \<Rightarrow> string list \<Rightarrow> int \<Rightarrow> world \<Rightarrow> (exn + int) \<times> world" where
  \<comment> \<open>The loop of lines 236-255 over the files left, with the running \<open>success_count\<close>.\<close>
  "process_files input_dir output_dir output_format ext quality width height recursive grayscale
     [] success_count w = (Inr success_count, w)"
| "process_files input_dir output_dir output_format ext quality width height recursive grayscale
     (input_path # rest) success_count w =
     (case destination recursive input_dir output_dir ext input_path w of
        (Inl e, w1) \<Rightarrow> (Inl e, w1)
      | (Inr output_path, w1) \<Rightarrow>
          (case process_image input_path output_path output_format quality width height
                  grayscale w1 of
             (ok, w2) \<Rightarrow>
               process_files input_dir output_dir output_format ext quality width height
                 recursive grayscale rest
                 (if ok then success_count + 1 else success_count) w2))"

definition process_directory ::
  "string \<Rightarrow> string \<Rightarrow> string \<Rightarrow> int \<Rightarrow> int option \<Rightarrow> int option \<Rightarrow> bool \<Rightarrow> bool \<Rightarrow> world
     \<Rightarrow> (exn + int \<times> int) \<times> world" where
  "process_directory input_dir output_dir output_format quality width height recursive grayscale w =
     (case find_image_files input_dir recursive w of
        Inl e \<Rightarrow> (Inl e, w)
      | Inr image_files \<Rightarrow>
          if image_files = [] then
            (Inr (0, 0),
             print (Fore_YELLOW @ ''No image files found in the specified directory.'') w)
          else
            (case makedirs output_dir w of
               (Inl e, w1) \<Rightarrow> (Inl e, w1)
             | (Inr u, w1) \<Rightarrow>
                 (case process_files input_dir output_dir output_format
                         (format_extension output_format) quality width height recursive
                         grayscale image_files 0
                         (print (Fore_CYAN @ ''Processing images...'') w1) of
                    (Inl e, w2) \<Rightarrow> (Inl e, w2)
                  | (Inr success_count, w2) \<Rightarrow>
                      (Inr (success_count, int (length image_files)), w2))))"

section \<open>main, directory mode\<close>

text \<open>
  The parsed command line, and the branch of \<open>main\<close> for \<open>--directory\<close> up to its summary
  line (lines 295-325). The banner and the line with the elapsed time are left out.
\<close>

record args =
  arg_directory :: string
  arg_output :: string
  arg_type :: "string option"
  arg_quality :: int
  arg_width :: "int option"
  arg_height :: "int option"
  arg_recursive :: bool
  arg_grayscale :: bool

definition isdir :: "string \<Rightarrow> world \<Rightarrow> bool" where
  "isdir path w = (case lookup_path w path of Some (Dir entries) \<Rightarrow> True | _ \<Rightarrow> False)"

definition summary :: "int \<Rightarrow> int \<Rightarrow> string" where
  \<comment> \<open>Lines 322-325.\<close>
  "summary success_count total_count =
     (if total_count = 0
      then Fore_YELLOW @ ''No image files found in the specified directory.''
      else Fore_GREEN @ ''Processing completed: '' @ Fore_WHITE @ str_int success_count
             @ ''/'' @ str_int total_count @ '' images successfully converted.'')"

definition main_directory :: "args \<Rightarrow> world \<Rightarrow> (exn + unit) \<times> world" where
  "main_directory a w =
     (if \<not> isdir (arg_directory a) w then
        (Inr (), print (Fore_RED @ ''Error: The specified input directory does not exist.'') w)
      else if \<not> truthy_str (arg_type a) then
        (Inr (),
         print (Fore_RED
                @ ''Error: Output format must be specified (-t/--type) when processing a directory.'')
           w)
      else
        (case dict_getitem SUPPORTED_FORMATS (lower (the (arg_type a))) of
           Inl e \<Rightarrow> (Inl e, w)
         | Inr output_format \<Rightarrow>
             (case process_directory (arg_directory a) (arg_output a) output_format
                     (arg_quality a) (arg_width a) (arg_height a) (arg_recursive a)
                     (arg_grayscale a)
                     (print (Fore_CYAN @ ''Recursive mode: '' @ Fore_WHITE
                               @ (if arg_recursive a then ''Yes'' else ''No''))
                       (print (Fore_CYAN @ ''Output format: '' @ Fore_WHITE @ output_format)
                         (print (Fore_CYAN @ ''Output directory: '' @ Fore_WHITE @ arg_output a)
                           (print (Fore_CYAN @ ''Processing directory: '' @ Fore_WHITE
                                     @ arg_directory a) w)))) of
                (Inl e, w') \<Rightarrow> (Inl e, w')
              | (Inr (success_count, total_count), w') \<Rightarrow>
                  (Inr (), print (summary success_count total_count) w'))))"

section \<open>Traces\<close>

text \<open>
  \<open>steps w w' cs\<close>: the world \<open>w'\<close> is \<open>w\<close> after the library calls \<open>cs\<close>, and nothing
  else has changed.
\<close>

fun is_open :: "call \<Rightarrow> bool" where
  "is_open (OpenCall path) = True"
| "is_open c = False"

fun is_convert :: "call \<Rightarrow> bool" where
  "is_convert (ConvertCall img m) = True"
| "is_convert c = False"

definition steps :: "world \<Rightarrow> world \<Rightarrow> call list \<Rightarrow> bool" where
  "steps w w' cs = (w' = w\<lparr>calls := calls w @ cs\<rparr>)"

section \<open>Fixtures\<close>

text \<open>
  Concrete worlds on which the theorems below are instantiated: nothing has been called
  or printed yet, no library call fails, and every \<open>Image.open\<close> decodes to the given
  image.
\<close>

definition quiet_world :: "(string \<Rightarrow> fsnode option) \<Rightarrow> image \<Rightarrow> world" where
  "quiet_world tree img =
     \<lparr>cwd = ''/home/user'', lookup_path = tree, decoded = (\<lambda>cs path. img),
      fault = (\<lambda>cs c. None), calls = [], stdout = []\<rparr>"

definition no_tree :: "string \<Rightarrow> fsnode option" where
  "no_tree path = None"

definition photo :: "string \<Rightarrow> int \<Rightarrow> int \<Rightarrow> image" where
  "photo m w h = \<lparr>mode = m, size' = (w, h)\<rparr>"


definition album_tree :: "string \<Rightarrow> fsnode option" where
  "album_tree path =
     (if path = ''photos''
      then Some (Dir [(''a.jpg'', File), (''notes.txt'', File),
                      (''album.png'', Dir [(''b.gif'', File)])])
      else None)"

definition batch_world :: world where
  \<comment> \<open>A directory with two matching files, of which \<open>b.jpg\<close> cannot be decoded.\<close>
  "batch_world =
     \<lparr>cwd = ''/home/user'',
      lookup_path = (\<lambda>path. if path = ''photos''
                             then Some (Dir [(''a.png'', File), (''b.jpg'', File),
                                             (''notes.txt'', File)])
                             else None),
      decoded = (\<lambda>cs path. photo ''RGB'' 800 600),
      fault = (\<lambda>cs c. if c = OpenCall ''photos/b.jpg''
                        then Some (PyExc ''UnidentifiedImageError''
                                     ''cannot identify image file'')
                        else None),
      calls = [], stdout = []\<rparr>"

definition failing_world :: world where
  \<comment> \<open>The same directory, and no file can be decoded.\<close>
  "failing_world =
     batch_world
       \<lparr>fault := (\<lambda>cs c. if is_open c
                           then Some (PyExc ''UnidentifiedImageError''
                                        ''cannot identify image file'')
                           else None)\<rparr>"

definition text_only_tree :: "string \<Rightarrow> fsnode option" where
  "text_only_tree path =
     (if path = ''photos'' then Some (Dir [(''notes.txt'', File)]) else None)"

definition webp_args :: args where
  "webp_args =
     \<lparr>arg_directory = ''photos'', arg_output = ''out'', arg_type = Some ''webp'',
      arg_quality = 90, arg_width = None, arg_height = None, arg_recursive = False,
      arg_grayscale = False\<rparr>"

section \<open>The specification's scaling formula\<close>


section \<open>A zero dimension counts as no dimension\<close>





section \<open>The format resolver\<close>

lemma SUPPORTED_FORMATS_values:
  "map_of SUPPORTED_FORMATS k = Some v \<Longrightarrow>
     v \<in> {''JPEG'', ''PNG'', ''WEBP'', ''BMP'', ''TIFF'', ''GIF''}"
  by (auto simp: SUPPORTED_FORMATS_def split: if_splits)

lemma lower_Nil_iff: "lower t = [] \<longleftrightarrow> t = []"
  by (simp add: lower_def)

text \<open>
  An explicit format name outside the table: \<open>get_output_format\<close> raises \<open>KeyError\<close>,
  so it does not return a format for every explicit name.
\<close>

theorem get_output_format_KeyError:
  "get_output_format ''photo.png'' (Some ''svg'') = Inl (KeyError ''svg'')"
  by code_simp

text \<open>
  Claim C2, amended. A non-empty explicit format name whose lower-case form is a key of the
  table wins: the result is the table's value for it, whatever the case of the name and
  whatever the output path. With no explicit name (\<open>None\<close> or the empty string) the
  extension of the output path is looked up in the same table, and an unknown extension
  gives JPEG. In both cases the result is one of the six canonical formats. A non-empty
  explicit name whose lower-case form is not a key raises \<open>KeyError\<close>.
\<close>

theorem get_output_format_resolves:
  "(t \<noteq> [] \<and> dict_contains SUPPORTED_FORMATS (lower t) \<longrightarrow>
      (\<exists>f. get_output_format output_path (Some t) = Inr f
           \<and> map_of SUPPORTED_FORMATS (lower t) = Some f
           \<and> f \<in> {''JPEG'', ''PNG'', ''WEBP'', ''BMP'', ''TIFF'', ''GIF''}))
   \<and> (t \<noteq> [] \<and> lower t = lower t' \<longrightarrow>
        get_output_format output_path (Some t) = get_output_format output_path' (Some t'))
   \<and> (t \<noteq> [] \<and> \<not> dict_contains SUPPORTED_FORMATS (lower t) \<longrightarrow>
        get_output_format output_path (Some t) = Inl (KeyError (lower t)))
   \<and> (\<not> truthy_str absent \<longrightarrow>
        get_output_format output_path absent
          = Inr (case map_of SUPPORTED_FORMATS
                        (remove_char (CHR ''.'') (lower (snd (splitext output_path)))) of
                   Some f \<Rightarrow> f
                 | None \<Rightarrow> ''JPEG'')
        \<and> (\<exists>f \<in> {''JPEG'', ''PNG'', ''WEBP'', ''BMP'', ''TIFF'', ''GIF''}.
              get_output_format output_path absent = Inr f))"
proof (intro conjI impI)
  assume a: "t \<noteq> [] \<and> dict_contains SUPPORTED_FORMATS (lower t)"
  then obtain f where f: "map_of SUPPORTED_FORMATS (lower t) = Some f"
    by (auto simp: dict_contains_def)
  with a have "get_output_format output_path (Some t) = Inr f"
    by (simp add: get_output_format_def dict_getitem_def)
  with f SUPPORTED_FORMATS_values [OF f]
  show "\<exists>f. get_output_format output_path (Some t) = Inr f
           \<and> map_of SUPPORTED_FORMATS (lower t) = Some f
           \<and> f \<in> {''JPEG'', ''PNG'', ''WEBP'', ''BMP'', ''TIFF'', ''GIF''}"
    by blast
next
  assume a: "t \<noteq> [] \<and> lower t = lower t'"
  then have "t' \<noteq> []" using lower_Nil_iff [of t] lower_Nil_iff [of t'] by auto
  with a show "get_output_format output_path (Some t) = get_output_format output_path' (Some t')"
    by (simp add: get_output_format_def)
next
  assume "t \<noteq> [] \<and> \<not> dict_contains SUPPORTED_FORMATS (lower t)"
  then show "get_output_format output_path (Some t) = Inl (KeyError (lower t))"
    by (simp add: get_output_format_def dict_getitem_def dict_contains_def)
next
  assume a: "\<not> truthy_str absent"
  show eq: "get_output_format output_path absent
          = Inr (case map_of SUPPORTED_FORMATS
                        (remove_char (CHR ''.'') (lower (snd (splitext output_path)))) of
                   Some f \<Rightarrow> f
                 | None \<Rightarrow> ''JPEG'')"
    using a
    by (simp add: get_output_format_def dict_getitem_def dict_contains_def Let_def
          split: option.splits)
  show "\<exists>f \<in> {''JPEG'', ''PNG'', ''WEBP'', ''BMP'', ''TIFF'', ''GIF''}.
              get_output_format output_path absent = Inr f"
    unfolding eq using SUPPORTED_FORMATS_values
    by (auto split: option.splits)
qed



theorem get_output_format_resolves_witness:
  "get_output_format ''out/pic.bmp'' (Some ''JPG'') = Inr ''JPEG''
   \<and> get_output_format ''out/pic.bmp'' (Some ''JPG'') = get_output_format ''x.gif'' (Some ''jpg'')
   \<and> get_output_format ''out/pic.bmp'' (Some ''svg'') = Inl (KeyError ''svg'')
   \<and> get_output_format ''out/pic.WebP'' None = Inr ''WEBP''"
proof -
  have k1: "''JPG'' \<noteq> [] \<and> dict_contains SUPPORTED_FORMATS (lower ''JPG'')" by code_simp
  have k2: "map_of SUPPORTED_FORMATS (lower ''JPG'') = Some ''JPEG''" by code_simp
  have k3: "''JPG'' \<noteq> [] \<and> lower ''JPG'' = lower ''jpg''" by code_simp
  have k4: "''svg'' \<noteq> [] \<and> \<not> dict_contains SUPPORTED_FORMATS (lower ''svg'')" by code_simp
  have k5: "lower ''svg'' = ''svg''" by code_simp
  have k6: "\<not> truthy_str None" by simp
  have k7: "(case map_of SUPPORTED_FORMATS
                        (remove_char (CHR ''.'') (lower (snd (splitext ''out/pic.WebP'')))) of
                   Some f \<Rightarrow> f
                 | None \<Rightarrow> ''JPEG'') = ''WEBP''" by code_simp
  note r = get_output_format_resolves
             [of "''JPG''" "''out/pic.bmp''" "''jpg''" "''x.gif''" None]
  note s = get_output_format_resolves
             [of "''svg''" "''out/pic.bmp''" "''svg''" "''x.gif''" None]
  note u = get_output_format_resolves
             [of "''JPG''" "''out/pic.WebP''" "''jpg''" "''x.gif''" None]
  from r k1 obtain f where "get_output_format ''out/pic.bmp'' (Some ''JPG'') = Inr f"
    and "map_of SUPPORTED_FORMATS (lower ''JPG'') = Some f" by blast
  with k2 have c1: "get_output_format ''out/pic.bmp'' (Some ''JPG'') = Inr ''JPEG''" by simp
  from r k3 have c2: "get_output_format ''out/pic.bmp'' (Some ''JPG'')
      = get_output_format ''x.gif'' (Some ''jpg'')" by blast
  from s k4 have "get_output_format ''out/pic.bmp'' (Some ''svg'') = Inl (KeyError (lower ''svg''))"
    by blast
  then have c3: "get_output_format ''out/pic.bmp'' (Some ''svg'') = Inl (KeyError ''svg'')"
    by (simp only: k5)
  from u k6 have "get_output_format ''out/pic.WebP'' None
          = Inr (case map_of SUPPORTED_FORMATS
                        (remove_char (CHR ''.'') (lower (snd (splitext ''out/pic.WebP'')))) of
                   Some f \<Rightarrow> f
                 | None \<Rightarrow> ''JPEG'')" by blast
  then have c4: "get_output_format ''out/pic.WebP'' None = Inr ''WEBP''"
    by (simp only: k7)
  from c1 c2 c3 c4 show ?thesis by blast
qed

section \<open>What one conversion does to the world\<close>

lemma steps_Nil: "steps w w []"
  by (simp add: steps_def)

lemma steps_trans: "steps w w1 cs \<Longrightarrow> steps w1 w2 ds \<Longrightarrow> steps w w2 (cs @ ds)"
  by (simp add: steps_def)

lemma and_then_cases:
  assumes "and_then m f w = (r, w')"
  obtains (raised) e where "m w = (Inl e, w')" "r = Inl e"
        | (went_on) x w1 where "m w = (Inr x, w1)" "f x w1 = (r, w')"
  using assms by (auto simp: and_then_def split: prod.splits sum.splits)

lemma Image_open_effect:
  assumes "Image_open path w = (r, w')"
  shows "steps w w' [OpenCall path]" and "r = Inr img \<Longrightarrow> img = decoded w (calls w) path"
    and "r = Inl e \<Longrightarrow> fault w (calls w) (OpenCall path) = Some e"
  using assms by (auto simp: Image_open_def lib_call_def steps_def split: option.splits)

lemma convert_effect:
  assumes "convert img m w = (r, w')"
  shows "steps w w' [ConvertCall img m]" and "r = Inr img' \<Longrightarrow> img' = img\<lparr>mode := m\<rparr>"
  using assms by (auto simp: convert_def lib_call_def steps_def split: option.splits)

lemma resize_effect:
  assumes "resize img sz w = (r, w')"
  shows "steps w w' [ResizeCall img sz]" and "r = Inr img' \<Longrightarrow> img' = img\<lparr>size' := sz\<rparr>"
  using assms by (auto simp: resize_def lib_call_def steps_def split: option.splits)

lemma makedirs_effect:
  assumes "makedirs path w = (r, w')"
  shows "steps w w' [MakedirsCall path]"
  using assms by (auto simp: makedirs_def lib_call_def steps_def split: option.splits)

lemma save_effect:
  assumes "save img path fmt kwargs w = (r, w')"
  shows "steps w w' [SaveCall img path fmt kwargs]"
    and "r = Inr u \<Longrightarrow> \<not> (fmt = ''JPEG'' \<and> mode img \<notin> set JPEG_RAWMODE)"
  using assms by (auto simp: save_def lib_call_def steps_def split: option.splits if_splits)


lemma resize_mode: "resize img sz w = (Inr img', w') \<Longrightarrow> mode img' = mode img"
  by (auto simp: resize_def lib_call_def split: option.splits)

lemma resize_if_needed_effect:
  assumes "resize_if_needed width height img w = (r, w')"
  shows "\<exists>cs. steps w w' cs \<and> (\<forall>c \<in> set cs. \<not> is_open c \<and> \<not> is_convert c)
              \<and> (cs = [] \<or> (\<exists>sz. cs = [ResizeCall img sz]
                                 \<and> target_size img width height = Inr (Some sz)))"
    and "r = Inr img' \<Longrightarrow> mode img' = mode img"
proof -
  show "\<exists>cs. steps w w' cs \<and> (\<forall>c \<in> set cs. \<not> is_open c \<and> \<not> is_convert c)
              \<and> (cs = [] \<or> (\<exists>sz. cs = [ResizeCall img sz]
                                 \<and> target_size img width height = Inr (Some sz)))"
  proof (cases "target_size img width height")
    case (Inl e)
    with assms have "w' = w" by (simp add: resize_if_needed_def)
    then show ?thesis using steps_Nil by fastforce
  next
    case (Inr t)
    show ?thesis
    proof (cases t)
      case None
      with Inr assms have "w' = w" by (simp add: resize_if_needed_def)
      then show ?thesis using steps_Nil by fastforce
    next
      case (Some sz)
      with Inr assms have "resize img sz w = (r, w')" by (simp add: resize_if_needed_def)
      from resize_effect(1) [OF this] Inr Some show ?thesis by fastforce
    qed
  qed
  show "r = Inr img' \<Longrightarrow> mode img' = mode img"
    using assms
    by (auto simp: resize_if_needed_def split: sum.splits option.splits dest: resize_mode)
qed

lemma save_image_effect:
  assumes "save_image output_path output_format quality img w = (r, w')"
  shows "\<exists>cs. steps w w' cs \<and> (\<forall>c \<in> set cs. \<not> is_open c \<and> \<not> is_convert c) \<and> r \<noteq> Inr False
              \<and> (r = Inr True \<longrightarrow>
                    cs = [MakedirsCall (dirname (abspath (cwd w) output_path)),
                          SaveCall img output_path output_format
                            (save_kwargs output_format quality)])"
  using assms unfolding save_image_def
proof (cases rule: and_then_cases)
  case (raised e)
  from makedirs_effect [OF raised(1)] raised(2) show ?thesis by fastforce
next
  case (went_on u w1)
  note mk = makedirs_effect [OF went_on(1)]
  from went_on(2) show ?thesis
  proof (cases rule: and_then_cases)
    case (raised e)
    from steps_trans [OF mk save_effect(1) [OF raised(1)]] raised(2)
    show ?thesis by fastforce
  next
    case (went_on u' w2)
    from steps_trans [OF mk save_effect(1) [OF went_on(1)]] went_on(2)
    show ?thesis by fastforce
  qed
qed


lemma convert_mode_effect:
  assumes "convert_mode grayscale output_format img w = (r, w')"
  shows "steps w w'
           (if grayscale then [ConvertCall img ''L'']
            else if mode img = ''RGBA'' \<and> output_format = ''JPEG'' then [ConvertCall img ''RGB'']
            else [])"
    and "r = Inr img' \<Longrightarrow>
           img' = (if grayscale then img\<lparr>mode := ''L''\<rparr>
                   else if mode img = ''RGBA'' \<and> output_format = ''JPEG''
                   then img\<lparr>mode := ''RGB''\<rparr> else img)"
  using assms convert_effect [of img _ w r w'] steps_Nil [of w]
  by (auto simp: convert_mode_def split: if_splits)

lemma finish_effect:
  assumes "and_then (resize_if_needed width height img)
             (save_image output_path output_format quality) w = (r, w')"
  shows "\<exists>cs. steps w w' cs \<and> (\<forall>c \<in> set cs. \<not> is_open c \<and> \<not> is_convert c) \<and> r \<noteq> Inr False
              \<and> (r = Inr True \<longrightarrow>
                    (\<exists>saved. cs \<noteq> [] \<and> mode saved = mode img
                        \<and> last cs = SaveCall saved output_path output_format
                                      (save_kwargs output_format quality)))"
  using assms
proof (cases rule: and_then_cases)
  case (raised e)
  from resize_if_needed_effect(1) [OF raised(1)] raised(2) show ?thesis by fastforce
next
  case (went_on img3 w3)
  from resize_if_needed_effect(1) [OF went_on(1)]
  obtain cs where cs: "steps w w3 cs" "\<forall>c \<in> set cs. \<not> is_open c \<and> \<not> is_convert c"
    by blast
  have m: "mode img3 = mode img"
    using resize_if_needed_effect(2) [OF went_on(1)] by simp
  from save_image_effect [OF went_on(2)]
  obtain ds where ds: "steps w3 w' ds" "\<forall>c \<in> set ds. \<not> is_open c \<and> \<not> is_convert c"
      "r \<noteq> Inr False"
      "r = Inr True \<longrightarrow>
         ds = [MakedirsCall (dirname (abspath (cwd w3) output_path)),
               SaveCall img3 output_path output_format (save_kwargs output_format quality)]"
    by blast
  have "steps w w' (cs @ ds)" using steps_trans [OF cs(1) ds(1)] .
  moreover have "\<forall>c \<in> set (cs @ ds). \<not> is_open c \<and> \<not> is_convert c"
    using cs(2) ds(2) by auto
  moreover have "r = Inr True \<longrightarrow>
       (cs @ ds \<noteq> [] \<and> mode img3 = mode img
          \<and> last (cs @ ds) = SaveCall img3 output_path output_format
                                (save_kwargs output_format quality))"
    using ds(4) m by auto
  ultimately show ?thesis using ds(3) by blast
qed


lemma process_image_try_effect:
  assumes "process_image_try input_path output_path output_format quality width height
             grayscale w = (r, w')"
  shows "\<exists>cs. steps w w' (OpenCall input_path # cs) \<and> (\<forall>c \<in> set cs. \<not> is_open c)
              \<and> r \<noteq> Inr False"
  using assms unfolding process_image_try_def
proof (cases rule: and_then_cases)
  case (raised e)
  from Image_open_effect(1) [OF raised(1)] raised(2) show ?thesis by fastforce
next
  case (went_on img w1)
  note op = Image_open_effect(1) [OF went_on(1)]
  from went_on(2) show ?thesis
  proof (cases rule: and_then_cases)
    case (raised e)
    from convert_mode_effect(1) [OF raised(1)]
    obtain cs where "steps w1 w' cs" "\<forall>c \<in> set cs. \<not> is_open c"
      by (cases grayscale; cases "mode img = ''RGBA'' \<and> output_format = ''JPEG''") auto
    with steps_trans [OF op this(1)] raised(2) show ?thesis by fastforce
  next
    case (went_on img2 w2)
    from convert_mode_effect(1) [OF went_on(1)]
    obtain cs where cs: "steps w1 w2 cs" "\<forall>c \<in> set cs. \<not> is_open c"
      by (cases grayscale; cases "mode img = ''RGBA'' \<and> output_format = ''JPEG''") auto
    from finish_effect [OF went_on(2)]
    obtain ds where ds: "steps w2 w' ds" "\<forall>c \<in> set ds. \<not> is_open c" "r \<noteq> Inr False"
      by blast
    have "steps w w' ([OpenCall input_path] @ cs @ ds)"
      using steps_trans [OF op steps_trans [OF cs(1) ds(1)]] .
    with cs(2) ds(2) ds(3) show ?thesis by fastforce
  qed
qed



section \<open>Errors of one conversion\<close>



section \<open>Colour modes\<close>





text \<open>
  Claim C6 says that every source with an alpha channel is flattened for a JPEG target
  and converted successfully. A source with an alpha channel whose mode is not \<open>RGBA\<close>
  (here \<open>LA\<close>, grey with alpha), a JPEG target, no grayscale flag, and a world in which
  no library call fails: nothing is flattened, the encoder refuses the mode, and the
  conversion fails.
\<close>

theorem alpha_LA_to_JPEG_fails:
  "fst (process_image ''in.png'' ''out.jpg'' ''JPEG'' 90 None None False
          (quiet_world no_tree (photo ''LA'' 64 64))) = False
   \<and> calls (snd (process_image ''in.png'' ''out.jpg'' ''JPEG'' 90 None None False
                   (quiet_world no_tree (photo ''LA'' 64 64))))
     = [OpenCall ''in.png'', MakedirsCall ''/home/user'',
        SaveCall (photo ''LA'' 64 64) ''out.jpg'' ''JPEG'' [(''quality'', PyInt 90)]]
   \<and> stdout (snd (process_image ''in.png'' ''out.jpg'' ''JPEG'' 90 None None False
                    (quiet_world no_tree (photo ''LA'' 64 64))))
     = [Fore_RED @ ''Error processing image (in.png): cannot write mode LA as JPEG'']"
  by code_simp

text \<open>The same conversion of an \<open>RGBA\<close> source is flattened to \<open>RGB\<close> and succeeds.\<close>

theorem alpha_RGBA_to_JPEG_succeeds:
  "fst (process_image ''in.png'' ''out.jpg'' ''JPEG'' 90 None None False
          (quiet_world no_tree (photo ''RGBA'' 64 64))) = True
   \<and> calls (snd (process_image ''in.png'' ''out.jpg'' ''JPEG'' 90 None None False
                   (quiet_world no_tree (photo ''RGBA'' 64 64))))
     = [OpenCall ''in.png'', ConvertCall (photo ''RGBA'' 64 64) ''RGB'',
        MakedirsCall ''/home/user'',
        SaveCall (photo ''RGB'' 64 64) ''out.jpg'' ''JPEG'' [(''quality'', PyInt 90)]]"
  by code_simp

section \<open>Enumeration\<close>

lemma find_image_files_flat:
  assumes "lookup_path w directory = Some (Dir entries)"
  shows "find_image_files directory False w
           = Inr (map (\<lambda>file. join directory [file]) (matching (map fst entries)))"
  using assms by (simp add: find_image_files_def listdir_def)

text \<open>
  Claim C3 says that the enumeration without recursion yields exactly the matching files
  of the directory. The directory \<open>photos\<close> holds one matching file, one file that
  does not match, and a subdirectory named \<open>album.png\<close>. Without recursion the
  subdirectory is listed as an image file, so two entries are returned; with recursion it
  is not, and the file inside it is.
\<close>

theorem find_image_files_lists_directory:
  "find_image_files ''photos'' False (quiet_world album_tree (photo ''RGB'' 8 8))
     = Inr [''photos/a.jpg'', ''photos/album.png'']
   \<and> find_image_files ''photos'' True (quiet_world album_tree (photo ''RGB'' 8 8))
     = Inr [''photos/a.jpg'', ''photos/album.png/b.gif'']"
  by code_simp

section \<open>Batches\<close>

lemma steps_fields:
  assumes "steps w w' cs"
  shows "stdout w' = stdout w" "cwd w' = cwd w" "lookup_path w' = lookup_path w"
    "calls w' = calls w @ cs"
  using assms by (simp_all add: steps_def)

lemma process_image_effect:
  assumes "process_image input_path output_path output_format quality width height grayscale w
             = (ok, w')"
  shows "filter is_open (calls w') = filter is_open (calls w) @ [OpenCall input_path]"
    and "length (stdout w') = length (stdout w) + (if ok then 0 else 1)"
    and "lookup_path w' = lookup_path w"
proof -
  obtain r w1 where run: "process_image_try input_path output_path output_format quality
                            width height grayscale w = (r, w1)"
    by (cases "process_image_try input_path output_path output_format quality
                 width height grayscale w") blast
  from process_image_try_effect [OF run]
  obtain cs where cs: "steps w w1 (OpenCall input_path # cs)" "\<forall>c \<in> set cs. \<not> is_open c"
    "r \<noteq> Inr False"
    by blast
  have f: "filter is_open cs = []" using cs(2) by (simp add: filter_empty_conv)
  from run assms have w': "(\<exists>e. r = Inl e \<and> \<not> ok \<and> (\<exists>s. w' = print s w1)) \<or> (r = Inr True \<and> ok \<and> w' = w1)"
    using cs(3) by (cases r) (auto simp: process_image_def)
  show "filter is_open (calls w') = filter is_open (calls w) @ [OpenCall input_path]"
    using w' steps_fields(4) [OF cs(1)] f by (auto simp: print_def)
  show "length (stdout w') = length (stdout w) + (if ok then 0 else 1)"
    using w' steps_fields(1) [OF cs(1)] by (auto simp: print_def)
  show "lookup_path w' = lookup_path w"
    using w' steps_fields(3) [OF cs(1)] by (auto simp: print_def)
qed

lemma destination_effect:
  assumes "destination recursive input_dir output_dir ext input_path w = (r, w')"
  shows "filter is_open (calls w') = filter is_open (calls w)"
    and "stdout w' = stdout w"
proof -
  have "\<exists>cs. steps w w' cs \<and> filter is_open cs = []"
  proof (cases "recursive \<and> (\<exists>rel. relpath (cwd w) input_path input_dir = Inr rel
                                    \<and> dirname rel \<noteq> [])")
    case True
    then obtain rel where rel: "relpath (cwd w) input_path input_dir = Inr rel"
      "dirname rel \<noteq> []" by blast
    obtain r1 w1 where mk: "makedirs (join output_dir [dirname rel]) w = (r1, w1)"
      by (cases "makedirs (join output_dir [dirname rel]) w") blast
    from assms True rel mk have "w' = w1"
      by (auto simp: destination_def Let_def split: sum.splits)
    with makedirs_effect [OF mk] show ?thesis by fastforce
  next
    case False
    with assms have "w' = w"
      by (auto simp: destination_def Let_def split: sum.splits if_splits)
    then show ?thesis using steps_Nil by fastforce
  qed
  then obtain cs where "steps w w' cs" "filter is_open cs = []" by blast
  then show "filter is_open (calls w') = filter is_open (calls w)" "stdout w' = stdout w"
    by (simp_all add: steps_def)
qed

lemma process_files_effect:
  assumes "process_files input_dir output_dir output_format ext quality width height recursive
             grayscale files s0 w = (Inr s1, w')"
  shows "s0 \<le> s1 \<and> s1 \<le> s0 + int (length files)
         \<and> int (length (filter is_open (calls w')))
             = int (length (filter is_open (calls w))) + int (length files)
         \<and> int (length (stdout w'))
             = int (length (stdout w)) + (int (length files) - (s1 - s0))"
  using assms
proof (induction files arbitrary: s0 w)
  case Nil
  then show ?case by simp
next
  case (Cons input_path rest)
  obtain d w1 where dest: "destination recursive input_dir output_dir ext input_path w = (d, w1)"
    by (cases "destination recursive input_dir output_dir ext input_path w") blast
  with Cons.prems obtain output_path where d: "d = Inr output_path"
    by (cases d) auto
  obtain ok w2 where conv: "process_image input_path output_path output_format quality width
                              height grayscale w1 = (ok, w2)"
    by (cases "process_image input_path output_path output_format quality width
                 height grayscale w1") blast
  from Cons.prems dest d conv
  have rec: "process_files input_dir output_dir output_format ext quality width height recursive
               grayscale rest (if ok then s0 + 1 else s0) w2 = (Inr s1, w')"
    by simp
  note ih = Cons.IH [OF rec]
  note de = destination_effect [OF dest]
  note pe = process_image_effect(1,2) [OF conv]
  from ih de pe show ?case by (cases ok) simp_all
qed

lemma process_directory_effect:
  assumes "process_directory input_dir output_dir output_format quality width height recursive
             grayscale w = (Inr (s, t), w')"
  shows "\<exists>files. find_image_files input_dir recursive w = Inr files
           \<and> t = int (length files) \<and> 0 \<le> s \<and> s \<le> t
           \<and> int (length (filter is_open (calls w')))
               = int (length (filter is_open (calls w))) + t
           \<and> int (length (stdout w')) = int (length (stdout w)) + 1 + (t - s)"
proof (cases "find_image_files input_dir recursive w")
  case (Inl e)
  with assms show ?thesis by (simp add: process_directory_def)
next
  case (Inr files)
  show ?thesis
  proof (cases "files = []")
    case True
    with Inr assms show ?thesis by (auto simp: process_directory_def print_def)
  next
    case False
    obtain r1 w1 where mk: "makedirs output_dir w = (r1, w1)"
      by (cases "makedirs output_dir w") blast
    with Inr False assms obtain u where r1: "r1 = Inr u"
      by (cases r1) (auto simp: process_directory_def)
    let ?w2 = "print (Fore_CYAN @ ''Processing images...'') w1"
    from Inr False assms mk r1
    have loop: "process_files input_dir output_dir output_format
                  (format_extension output_format) quality width height recursive grayscale
                  files 0 ?w2 = (Inr s, w')"
      and t: "t = int (length files)"
      by (auto simp: process_directory_def split: prod.splits sum.splits)
    from makedirs_effect [OF mk]
    have w2: "filter is_open (calls ?w2) = filter is_open (calls w)"
      "length (stdout ?w2) = length (stdout w) + 1"
      by (simp_all add: steps_def print_def)
    from process_files_effect [OF loop] w2 t Inr show ?thesis by simp
  qed
qed

text \<open>
  Claim C8. When \<open>process_directory\<close> returns \<open>(successes, total)\<close>, the total is the number
  of files the enumerator yielded, \<open>0 \<le> successes \<le> total\<close>, exactly one image was opened
  per enumerated file, and exactly \<open>total - successes\<close> error lines were printed after the
  single progress or no-files line.
\<close>

theorem process_directory_counts:
  assumes "process_directory input_dir output_dir output_format quality width height recursive
             grayscale w = (Inr (s, t), w')"
  shows "\<exists>files. find_image_files input_dir recursive w = Inr files
           \<and> t = int (length files) \<and> 0 \<le> s \<and> s \<le> t
           \<and> int (length (filter is_open (calls w')))
               = int (length (filter is_open (calls w))) + t
           \<and> int (length (stdout w')) = int (length (stdout w)) + 1 + (t - s)"
  using assms by (rule process_directory_effect)

theorem process_directory_counts_witness:
  "\<exists>files. find_image_files ''photos'' False batch_world = Inr files
      \<and> (2::int) = int (length files) \<and> (0::int) \<le> 1 \<and> (1::int) \<le> 2
      \<and> int (length (filter is_open
            (calls (snd (process_directory ''photos'' ''out'' ''WEBP'' 90 None None False False
                           batch_world)))))
          = int (length (filter is_open (calls batch_world))) + 2
      \<and> int (length
            (stdout (snd (process_directory ''photos'' ''out'' ''WEBP'' 90 None None False False
                            batch_world))))
          = int (length (stdout batch_world)) + 1 + (2 - 1)"
proof -
  let ?run = "process_directory ''photos'' ''out'' ''WEBP'' 90 None None False False batch_world"
  have "fst ?run = Inr (1, 2)" by code_simp
  then have "?run = (Inr (1, 2), snd ?run)" by (cases ?run) simp
  from process_directory_counts [OF this] show ?thesis .
qed

lemma find_image_files_print: "find_image_files d r (print msg w) = find_image_files d r w"
  by (simp add: find_image_files_def listdir_def walk_def print_def)

lemma summary_distinct: "t \<noteq> 0 \<Longrightarrow> summary s t \<noteq> summary 0 0"
  by (simp add: summary_def Fore_GREEN_def Fore_YELLOW_def)

text \<open>
  Claim C7. When the enumerator finds no file, \<open>process_directory\<close> returns \<open>(0, 0)\<close>,
  makes no library call (nothing is opened, converted, saved or created) and prints the
  no-files line; \<open>main\<close> then prints the no-files summary. A batch that found files
  returns a total other than 0, whatever failed, and its summary is a different line.
\<close>

theorem empty_batch_is_distinct:
  assumes "find_image_files input_dir recursive w = Inr []"
  shows "(\<exists>w'. process_directory input_dir output_dir output_format quality width height
                 recursive grayscale w = (Inr (0, 0), w')
              \<and> calls w' = calls w
              \<and> stdout w' = stdout w
                   @ [Fore_YELLOW @ ''No image files found in the specified directory.''])
         \<and> (isdir input_dir w \<and> arg_directory a = input_dir \<and> arg_recursive a = recursive
              \<and> truthy_str (arg_type a)
              \<and> dict_contains SUPPORTED_FORMATS (lower (the (arg_type a)))
            \<longrightarrow> (\<exists>w'. main_directory a w = (Inr (), w') \<and> calls w' = calls w
                     \<and> last (stdout w') = summary 0 0
                     \<and> summary 0 0
                         = Fore_YELLOW @ ''No image files found in the specified directory.''))
         \<and> (\<forall>v files s t v'.
               find_image_files input_dir recursive v = Inr files \<and> files \<noteq> []
               \<and> process_directory input_dir output_dir output_format quality width height
                   recursive grayscale v = (Inr (s, t), v')
               \<longrightarrow> t \<noteq> 0 \<and> summary s t \<noteq> summary 0 0)"
proof (intro conjI impI allI)
  show "\<exists>w'. process_directory input_dir output_dir output_format quality width height
                 recursive grayscale w = (Inr (0, 0), w')
              \<and> calls w' = calls w
              \<and> stdout w' = stdout w
                   @ [Fore_YELLOW @ ''No image files found in the specified directory.'']"
    using assms by (simp add: process_directory_def print_def)
next
  assume a: "isdir input_dir w \<and> arg_directory a = input_dir \<and> arg_recursive a = recursive
              \<and> truthy_str (arg_type a)
              \<and> dict_contains SUPPORTED_FORMATS (lower (the (arg_type a)))"
  then obtain fmt where fmt: "dict_getitem SUPPORTED_FORMATS (lower (the (arg_type a))) = Inr fmt"
    by (auto simp: dict_contains_def dict_getitem_def)
  let ?w4 = "print (Fore_CYAN @ ''Recursive mode: '' @ Fore_WHITE
                      @ (if arg_recursive a then ''Yes'' else ''No''))
              (print (Fore_CYAN @ ''Output format: '' @ Fore_WHITE @ fmt)
                (print (Fore_CYAN @ ''Output directory: '' @ Fore_WHITE @ arg_output a)
                  (print (Fore_CYAN @ ''Processing directory: '' @ Fore_WHITE
                            @ arg_directory a) w)))"
  have "find_image_files input_dir recursive ?w4 = Inr []"
    using assms by (simp only: find_image_files_print)
  then have pd: "process_directory (arg_directory a) (arg_output a) fmt (arg_quality a)
                   (arg_width a) (arg_height a) (arg_recursive a) (arg_grayscale a) ?w4
                 = (Inr (0, 0),
                    print (Fore_YELLOW @ ''No image files found in the specified directory.'')
                      ?w4)"
    using a by (simp add: process_directory_def)
  have "main_directory a w
        = (Inr (), print (summary 0 0)
                     (print (Fore_YELLOW @ ''No image files found in the specified directory.'')
                        ?w4))"
    using a fmt pd by (simp add: main_directory_def)
  then show "\<exists>w'. main_directory a w = (Inr (), w') \<and> calls w' = calls w
                     \<and> last (stdout w') = summary 0 0
                     \<and> summary 0 0
                         = Fore_YELLOW @ ''No image files found in the specified directory.''"
    by (simp add: print_def summary_def)
next
  fix v files s t v'
  assume b: "find_image_files input_dir recursive v = Inr files \<and> files \<noteq> []
               \<and> process_directory input_dir output_dir output_format quality width height
                   recursive grayscale v = (Inr (s, t), v')"
  then have "process_directory input_dir output_dir output_format quality width height
                   recursive grayscale v = (Inr (s, t), v')" by blast
  from process_directory_effect [OF this] b have "t = int (length files)" by auto
  with b show "t \<noteq> 0" by auto
  then show "summary s t \<noteq> summary 0 0" by (rule summary_distinct)
qed

theorem empty_batch_is_distinct_witness:
  "(\<exists>w'. process_directory ''photos'' ''out'' ''WEBP'' 90 None None False False
            (quiet_world text_only_tree (photo ''RGB'' 8 8)) = (Inr (0, 0), w')
         \<and> calls w' = calls (quiet_world text_only_tree (photo ''RGB'' 8 8))
         \<and> stdout w' = stdout (quiet_world text_only_tree (photo ''RGB'' 8 8))
              @ [Fore_YELLOW @ ''No image files found in the specified directory.''])
   \<and> (\<exists>w'. main_directory webp_args (quiet_world text_only_tree (photo ''RGB'' 8 8))
             = (Inr (), w')
           \<and> calls w' = calls (quiet_world text_only_tree (photo ''RGB'' 8 8))
           \<and> last (stdout w') = summary 0 0
           \<and> summary 0 0 = Fore_YELLOW @ ''No image files found in the specified directory.'')
   \<and> fst (process_directory ''photos'' ''out'' ''WEBP'' 90 None None False False failing_world)
       = Inr (0, 2)
   \<and> summary 0 2 \<noteq> summary 0 0"
proof -
  let ?w = "quiet_world text_only_tree (photo ''RGB'' 8 8)"
  let ?run = "process_directory ''photos'' ''out'' ''WEBP'' 90 None None False False
                failing_world"
  have none: "find_image_files ''photos'' False ?w = Inr []" by code_simp
  have some: "find_image_files ''photos'' False failing_world
                = Inr [''photos/a.png'', ''photos/b.jpg'']" by code_simp
  have run: "fst ?run = Inr (0, 2)" by code_simp
  then have run': "?run = (Inr (0, 2), snd ?run)" by (cases ?run) simp
  have hyp: "isdir ''photos'' ?w \<and> arg_directory webp_args = ''photos''
             \<and> arg_recursive webp_args = False \<and> truthy_str (arg_type webp_args)
             \<and> dict_contains SUPPORTED_FORMATS (lower (the (arg_type webp_args)))"
    by code_simp
  note inst = empty_batch_is_distinct
               [OF none, of "''out''" "''WEBP''" 90 None None False webp_args]
  from inst have p1: "\<exists>w'. process_directory ''photos'' ''out'' ''WEBP'' 90 None None False False
            ?w = (Inr (0, 0), w')
         \<and> calls w' = calls ?w
         \<and> stdout w' = stdout ?w
              @ [Fore_YELLOW @ ''No image files found in the specified directory.'']"
    by blast
  from inst hyp have p2: "\<exists>w'. main_directory webp_args ?w = (Inr (), w')
           \<and> calls w' = calls ?w
           \<and> last (stdout w') = summary 0 0
           \<and> summary 0 0 = Fore_YELLOW @ ''No image files found in the specified directory.''"
    by blast
  from inst some run' have p3: "summary 0 2 \<noteq> summary 0 0"
    by blast
  from p1 p2 run p3 show ?thesis by blast
qed

section \<open>Destination paths\<close>
















section \<open>Rounding to binary64\<close>













section \<open>The derived dimension\<close>






end
